theory Spec2Isabelle
  imports Complex_Main "HOL-Library.Multiset"
begin

section \<open>Rasters, geometries and the platform operations the script calls\<close>

text \<open>
  The script \<^verbatim>\<open>UHI.js\<close> is a straight-line sequence of calls to a hosted
  image-processing platform, followed by one client-side JavaScript callback.  The
  platform's operations are not part of the repository; each is modelled here by what it
  does to one band, pixel by pixel.  An image band is a partial raster: a pixel either
  carries a value or is masked (\<open>None\<close>, the platform's no-data).  Pixel values are ideal
  real numbers; the rounding of the platform's and of JavaScript's binary floating point
  is not modelled.

  A geometry is given by the pixels of the analysis grid it covers, each with the fraction
  of the pixel that lies inside the geometry (the weight the region reducer uses).  Every
  aggregation of the script uses the same ground scale (100 m), so one grid suffices.
\<close>

type_synonym pixel = nat
type_synonym image = "pixel \<Rightarrow> real option"
type_synonym geometry = "(pixel \<times> real) list"

datatype ee_error = TooManyPixels | NullArgument | MissingBand

text \<open>Band arithmetic with a constant: \<^verbatim>\<open>multiply\<close>, \<^verbatim>\<open>add\<close>, \<^verbatim>\<open>subtract\<close>.
  A masked pixel stays masked.\<close>

definition multiply :: "image \<Rightarrow> real \<Rightarrow> image" where
  "multiply img c = (\<lambda>p. map_option (\<lambda>v. v * c) (img p))"

definition add_const :: "image \<Rightarrow> real \<Rightarrow> image" where
  "add_const img c = (\<lambda>p. map_option (\<lambda>v. v + c) (img p))"

definition subtract :: "image \<Rightarrow> real \<Rightarrow> image" where
  "subtract img c = (\<lambda>p. map_option (\<lambda>v. v - c) (img p))"

text \<open>Comparisons and boolean operators return 1 or 0 and keep the mask of their
  inputs: \<^verbatim>\<open>gt\<close>, \<^verbatim>\<open>lt\<close>, \<^verbatim>\<open>and\<close>, \<^verbatim>\<open>not\<close>.\<close>

definition gt :: "image \<Rightarrow> real \<Rightarrow> image" where
  "gt img c = (\<lambda>p. map_option (\<lambda>v. if v > c then 1 else 0) (img p))"

definition lt :: "image \<Rightarrow> real \<Rightarrow> image" where
  "lt img c = (\<lambda>p. map_option (\<lambda>v. if v < c then 1 else 0) (img p))"

definition and_img :: "image \<Rightarrow> image \<Rightarrow> image" where
  "and_img a b = (\<lambda>p. case a p of None \<Rightarrow> None
      | Some x \<Rightarrow> (case b p of None \<Rightarrow> None
          | Some y \<Rightarrow> Some (if x \<noteq> 0 \<and> y \<noteq> 0 then 1 else 0)))"

definition not_img :: "image \<Rightarrow> image" where
  "not_img a = (\<lambda>p. map_option (\<lambda>v. if v \<noteq> 0 then 0 else 1) (a p))"

text \<open>\<^verbatim>\<open>selfMask\<close> masks the pixels whose value is zero; \<^verbatim>\<open>updateMask\<close> keeps a pixel
  of the image only where the mask image is unmasked and non-zero.  The masks of the
  script take the values 0 and 1 only, so fractional mask weights do not arise.\<close>

definition selfMask :: "image \<Rightarrow> image" where
  "selfMask img = (\<lambda>p. case img p of None \<Rightarrow> None
      | Some v \<Rightarrow> if v \<noteq> 0 then Some v else None)"

definition updateMask :: "image \<Rightarrow> image \<Rightarrow> image" where
  "updateMask img m = (\<lambda>p. case m p of None \<Rightarrow> None
      | Some k \<Rightarrow> if k \<noteq> 0 then img p else None)"

text \<open>\<^verbatim>\<open>where(test, value)\<close> replaces a pixel of the input by the constant where the
  test is unmasked and non-zero; where the test is masked or zero the input is kept, and a
  masked input stays masked.\<close>

definition where_img :: "image \<Rightarrow> image \<Rightarrow> real \<Rightarrow> image" where
  "where_img img test c = (\<lambda>p. case img p of None \<Rightarrow> None
      | Some v \<Rightarrow> (case test p of None \<Rightarrow> Some v
          | Some t \<Rightarrow> if t \<noteq> 0 then Some c else Some v))"

text \<open>\<^verbatim>\<open>clip\<close> masks every pixel the geometry does not cover.\<close>

definition covered :: "geometry \<Rightarrow> pixel \<Rightarrow> bool" where
  "covered g p = (filter (\<lambda>(q, w). q = p \<and> 0 < w) g \<noteq> [])"

definition clip :: "image \<Rightarrow> geometry \<Rightarrow> image" where
  "clip img g = (\<lambda>p. if covered g p then img p else None)"

text \<open>
  Modelled from the spec: \<^verbatim>\<open>normalizedDifference\<close> is a function of the platform and not
  part of \<^verbatim>\<open>src/\<close>.  It is \<open>(first - second) / (first + second)\<close>; by the spec
  (4.2, 7b, 8) a zero denominator yields a no-data pixel.  The platform documents in
  addition that a negative value in either input band masks the output pixel.
\<close>

definition normalizedDifference :: "image \<Rightarrow> image \<Rightarrow> image" where
  "normalizedDifference first second = (\<lambda>p. case first p of None \<Rightarrow> None
      | Some a \<Rightarrow> (case second p of None \<Rightarrow> None
          | Some b \<Rightarrow> if a < 0 \<or> b < 0 then None
                      else if a + b = 0 then None
                      else Some ((a - b) / (a + b))))"

subsection \<open>Reducers\<close>

text \<open>The mean reducer accumulates the weighted sum and the sum of the weights of its
  inputs; with no input its result is null.\<close>

fun mean_accumulate :: "(real \<times> real) list \<Rightarrow> real \<times> real \<Rightarrow> real \<times> real" where
  "mean_accumulate [] acc = acc"
| "mean_accumulate ((v, w) # rest) (s, t) = mean_accumulate rest (s + v * w, t + w)"

definition Reducer_mean :: "(real \<times> real) list \<Rightarrow> real option" where
  "Reducer_mean inputs =
     (if inputs = [] then None
      else (let (s, t) = mean_accumulate inputs (0, 0) in Some (s / t)))"

text \<open>The median reducer sorts its inputs and takes the middle one, or the mean of the
  two middle ones when their number is even.\<close>

definition Reducer_median :: "real list \<Rightarrow> real option" where
  "Reducer_median inputs =
     (let sorted = sort inputs; n = length sorted in
      if n = 0 then None
      else if odd n then Some (sorted ! (n div 2))
      else Some ((sorted ! (n div 2 - 1) + sorted ! (n div 2)) / 2))"

fun unmasked :: "real option list \<Rightarrow> real list" where
  "unmasked [] = []"
| "unmasked (None # rest) = unmasked rest"
| "unmasked (Some v # rest) = v # unmasked rest"

text \<open>Reducing the images of a collection works band by band and pixel by pixel on the
  unmasked values; each of them has weight 1.  Where no image has a value the result is
  masked.\<close>

definition band_mean :: "image list \<Rightarrow> image" where
  "band_mean imgs =
     (\<lambda>p. Reducer_mean (map (\<lambda>v. (v, 1)) (unmasked (map (\<lambda>img. img p) imgs))))"

definition band_median :: "image list \<Rightarrow> image" where
  "band_median imgs = (\<lambda>p. Reducer_median (unmasked (map (\<lambda>img. img p) imgs)))"

text \<open>The result of reducing a collection has the bands of its images.  An empty
  collection has no image to take bands from, so its reduction is an image without bands
  (\<open>None\<close>); an operation that needs a band of such an image, or the entry of the band
  in the dictionary of a region reduction, fails with \<open>MissingBand\<close>.\<close>

definition collection_mean :: "image list \<Rightarrow> image option" where
  "collection_mean imgs = (if imgs = [] then None else Some (band_mean imgs))"

text \<open>
  Modelled from the spec: \<^verbatim>\<open>reduceRegion\<close> with the mean reducer is a function of the
  platform and not part of \<^verbatim>\<open>src/\<close>.  By the spec (4.4, 7c) it is the area-weighted mean of
  the valid pixels intersecting the geometry, null when there is none, and it fails with an
  aggregation-limit error when the geometry has more pixels at the sampling scale than
  \<^verbatim>\<open>maxPixels\<close> allows.  The pixels of the geometry are those of the grid of the
  \<^verbatim>\<open>scale\<close> argument, so their number is the length of the geometry; pixels of
  weight zero and masked pixels are no input of the reducer.
\<close>

record reduce_args =
  geometry :: geometry
  scale :: nat
  maxPixels :: nat

fun region_inputs :: "image \<Rightarrow> geometry \<Rightarrow> (real \<times> real) list" where
  "region_inputs img [] = []"
| "region_inputs img ((p, w) # rest) =
     (case img p of
        None \<Rightarrow> region_inputs img rest
      | Some v \<Rightarrow> if 0 < w then (v, w) # region_inputs img rest
                  else region_inputs img rest)"

definition reduceRegion_mean :: "image \<Rightarrow> reduce_args \<Rightarrow> ee_error + real option" where
  "reduceRegion_mean img args =
     (if maxPixels args < length (geometry args) then Inl TooManyPixels
      else Inr (Reducer_mean (region_inputs img (geometry args))))"

section \<open>The script\<close>

subsection \<open>Scene selection (lines 19-23)\<close>

record bands =
  SR_B4 :: image
  SR_B5 :: image
  SR_B6 :: image
  ST_B10 :: image

record scene =
  time_start :: int
  CLOUD_COVER :: real
  footprint :: "pixel list"
  scene_bands :: bands

text \<open>The analysis period, as milliseconds since the epoch:
  2024-06-01 and 2024-09-30 (UTC).\<close>

definition startDate :: int where
  "startDate = 1717200000000"

definition endDate :: int where
  "endDate = 1727654400000"

definition filterBounds :: "geometry \<Rightarrow> scene list \<Rightarrow> scene list" where
  "filterBounds g = filter (\<lambda>s. filter (covered g) (footprint s) \<noteq> [])"

definition filterDate :: "int \<Rightarrow> int \<Rightarrow> scene list \<Rightarrow> scene list" where
  "filterDate start stop = filter (\<lambda>s. start \<le> time_start s \<and> time_start s < stop)"

definition landsat :: "scene list \<Rightarrow> scene list \<Rightarrow> geometry \<Rightarrow> scene list" where
  "landsat lc08 lc09 javaBounds =
     filter (\<lambda>s. CLOUD_COVER s < 20)
       (filterDate startDate endDate (filterBounds javaBounds (lc08 @ lc09)))"

subsection \<open>Land surface temperature (lines 26-37)\<close>

definition calculateLST :: "scene \<Rightarrow> image" where
  "calculateLST img =
     subtract (add_const (multiply (ST_B10 (scene_bands img)) 0.00341802) 149.0) 273.15"

definition lstCollection :: "scene list \<Rightarrow> image list" where
  "lstCollection scenes = map calculateLST scenes"

definition lstMean :: "scene list \<Rightarrow> geometry \<Rightarrow> image option" where
  "lstMean scenes javaBounds =
     map_option (\<lambda>band. clip band javaBounds) (collection_mean (lstCollection scenes))"

subsection \<open>Indices and masks (lines 49-65)\<close>

definition median :: "scene list \<Rightarrow> bands option" where
  "median scenes =
     (if scenes = [] then None
      else Some
        \<lparr> SR_B4 = band_median (map (\<lambda>s. SR_B4 (scene_bands s)) scenes),
          SR_B5 = band_median (map (\<lambda>s. SR_B5 (scene_bands s)) scenes),
          SR_B6 = band_median (map (\<lambda>s. SR_B6 (scene_bands s)) scenes),
          ST_B10 = band_median (map (\<lambda>s. ST_B10 (scene_bands s)) scenes) \<rparr>)"

definition ndvi :: "bands \<Rightarrow> image" where
  "ndvi med = normalizedDifference (SR_B5 med) (SR_B4 med)"

definition ndbi :: "bands \<Rightarrow> image" where
  "ndbi med = normalizedDifference (SR_B6 med) (SR_B5 med)"

definition urbanMask :: "image \<Rightarrow> image \<Rightarrow> image" where
  "urbanMask ndvi_img ndbi_img = selfMask (and_img (gt ndbi_img 0.1) (lt ndvi_img 0.2))"

definition ruralMask :: "image \<Rightarrow> image \<Rightarrow> image" where
  "ruralMask ndvi_img ndbi_img = and_img (gt ndvi_img 0.3) (lt ndbi_img (- 0.1))"

subsection \<open>Regional means and the intensity raster (lines 68-89)\<close>

definition urbanLST :: "image \<Rightarrow> image \<Rightarrow> image" where
  "urbanLST lst urban = updateMask lst urban"

definition urbanTemp :: "image \<Rightarrow> image \<Rightarrow> geometry \<Rightarrow> ee_error + real option" where
  "urbanTemp lst urban javaBounds =
     reduceRegion_mean (urbanLST lst urban)
       \<lparr> geometry = javaBounds, scale = 100, maxPixels = 10 ^ 13 \<rparr>"

definition ruralLST :: "image \<Rightarrow> image \<Rightarrow> image" where
  "ruralLST lst rural = updateMask lst rural"

definition ruralTemp :: "image \<Rightarrow> image \<Rightarrow> geometry \<Rightarrow> ee_error + real option" where
  "ruralTemp lst rural javaBounds =
     reduceRegion_mean (ruralLST lst rural)
       \<lparr> geometry = javaBounds, scale = 100, maxPixels = 10 ^ 13 \<rparr>"

text \<open>\<^verbatim>\<open>ee.Number(ruralTemp.get('LST'))\<close> is an error when the rural mean failed or is
  null; the raster is then not computed.\<close>

definition uhiIntensity ::
  "image \<Rightarrow> image \<Rightarrow> ee_error + real option \<Rightarrow> ee_error + image" where
  "uhiIntensity lst urban rural_temp =
     (case rural_temp of
        Inl e \<Rightarrow> Inl e
      | Inr None \<Rightarrow> Inl NullArgument
      | Inr (Some r) \<Rightarrow>
          Inr (updateMask (subtract (where_img lst (not_img urban) 0) r) urban))"

subsection \<open>City samples (lines 98-120)\<close>

record city =
  name :: string
  coords :: "real \<times> real"

definition cities :: "city list" where
  "cities =
     [\<lparr> name = ''Jakarta'', coords = (106.8456, - 6.2088) \<rparr>,
      \<lparr> name = ''Surabaya'', coords = (112.7521, - 7.2575) \<rparr>,
      \<lparr> name = ''Bandung'', coords = (107.6191, - 6.9175) \<rparr>,
      \<lparr> name = ''Semarang'', coords = (110.4203, - 6.9932) \<rparr>,
      \<lparr> name = ''Yogyakarta'', coords = (110.3695, - 7.7956) \<rparr>]"

definition cityLST :: "image \<Rightarrow> geometry \<Rightarrow> ee_error + real option" where
  "cityLST lst buffer =
     reduceRegion_mean lst \<lparr> geometry = buffer, scale = 100, maxPixels = 10 ^ 13 \<rparr>"

text \<open>The buffer of a point is computed by the platform; \<open>buffer_of\<close> stands for
  \<^verbatim>\<open>ee.Geometry.Point(coords).buffer(radius)\<close> on the analysis grid.  The loop prints one
  line per city.\<close>

definition city_report ::
  "(real \<times> real \<Rightarrow> nat \<Rightarrow> geometry) \<Rightarrow> image \<Rightarrow> (string \<times> (ee_error + real option)) list" where
  "city_report buffer_of lst =
     map (\<lambda>c. (name c, cityLST lst (buffer_of (coords c) 10000))) cities"

subsection \<open>The statistics panel callback (lines 145-197)\<close>

text \<open>
  \<^verbatim>\<open>evaluate\<close> hands the value of a regional mean to a JavaScript callback: a number,
  \<^verbatim>\<open>null\<close> when the mean is null, and \<^verbatim>\<open>undefined\<close> when the computation failed.
\<close>

datatype jsval = Num real | NaN | Null | Undefined

datatype js_error = TypeError

definition evaluate :: "ee_error + real option \<Rightarrow> jsval" where
  "evaluate r = (case r of Inl e \<Rightarrow> Undefined | Inr None \<Rightarrow> Null | Inr (Some v) \<Rightarrow> Num v)"

text \<open>The binary minus of JavaScript converts its operands to numbers first:
  \<^verbatim>\<open>null\<close> becomes 0 and \<^verbatim>\<open>undefined\<close> becomes NaN.\<close>

definition ToNumber :: "jsval \<Rightarrow> jsval" where
  "ToNumber v = (case v of Num x \<Rightarrow> Num x | NaN \<Rightarrow> NaN | Null \<Rightarrow> Num 0 | Undefined \<Rightarrow> NaN)"

definition js_minus :: "jsval \<Rightarrow> jsval \<Rightarrow> jsval" where
  "js_minus a b =
     (case ToNumber a of
        Num x \<Rightarrow> (case ToNumber b of Num y \<Rightarrow> Num (x - y) | _ \<Rightarrow> NaN)
      | _ \<Rightarrow> NaN)"

text \<open>
  \<^verbatim>\<open>Number.prototype.toFixed(2)\<close>: the sign is split off, the number of hundredths is
  the integer nearest to \<open>100 * x\<close> (the larger one of two), and its decimal digits are
  printed with a point before the last two.  From \<open>10 ^ 21\<close> on JavaScript prints the
  exponent notation of the double instead; its digits are not modelled.
\<close>

datatype jsstring = Text string | ExponentNotation real

definition digit :: "nat \<Rightarrow> char" where
  "digit d = ''0123456789'' ! (d mod 10)"

fun decimal :: "nat \<Rightarrow> string" where
  "decimal n = (if n < 10 then [digit n] else decimal (n div 10) @ [digit (n mod 10)])"

declare decimal.simps [simp del]

definition toFixed2 :: "real \<Rightarrow> jsstring" where
  "toFixed2 x =
     (let s = (if x < 0 then ''-'' else []); y = \<bar>x\<bar> in
      if 10 ^ 21 \<le> y then ExponentNotation x
      else (let n = nat \<lfloor>y * 100 + 1 / 2\<rfloor> in
            Text (s @ decimal (n div 100) @ ''.'' @ [digit (n div 10), digit n])))"

text \<open>Calling the method on a value: \<^verbatim>\<open>null\<close> and \<^verbatim>\<open>undefined\<close> have no
  properties, so the call throws a TypeError.\<close>

definition toFixed :: "jsval \<Rightarrow> js_error + jsstring" where
  "toFixed v =
     (case v of
        Num x \<Rightarrow> Inr (toFixed2 x)
      | NaN \<Rightarrow> Inr (Text ''NaN'')
      | Null \<Rightarrow> Inl TypeError
      | Undefined \<Rightarrow> Inl TypeError)"

definition uhi :: "jsval \<Rightarrow> jsval \<Rightarrow> jsstring" where
  "uhi uTemp rTemp =
     (case js_minus uTemp rTemp of Num d \<Rightarrow> toFixed2 d | _ \<Rightarrow> Text ''NaN'')"

text \<open>
  The labels the callback adds to the panel, in order.  A \<open>Heading\<close> is a fixed text, a
  \<open>Celsius\<close> label is a formatted number followed by the unit, \<open>Warmer\<close> is the closing
  sentence around the intensity.  The callback returns the panel as it stands when it
  ends, and the exception that ended it, if any.  When the callback runs, the panel
  holds its title.
\<close>

datatype label = Heading string | Period int int | Rule | Celsius jsstring | Warmer jsstring

definition title :: label where
  "title = Heading ''URBAN HEAT ISLAND STATISTICS''"

definition statsCallback :: "jsval \<Rightarrow> jsval \<Rightarrow> label list \<Rightarrow> label list \<times> js_error option" where
  "statsCallback uTemp rTemp statsPanel =
     (let uhi_text = uhi uTemp rTemp;
          panel1 = statsPanel @ [Heading ''Analysis Period:'', Period startDate endDate, Rule,
                                 Heading ''Average Urban LST:'']
      in case toFixed uTemp of
           Inl e \<Rightarrow> (panel1, Some e)
         | Inr u_text \<Rightarrow>
             (let panel2 = panel1 @ [Celsius u_text, Heading ''Average Rural LST:'']
              in case toFixed rTemp of
                   Inl e \<Rightarrow> (panel2, Some e)
                 | Inr r_text \<Rightarrow>
                     (panel2 @ [Celsius r_text, Rule, Heading ''UHI Intensity:'',
                                Celsius uhi_text, Warmer uhi_text], None)))"

text \<open>The intensity the panel shows: the text of its \<open>Warmer\<close> label, if it has one.\<close>

fun reported_uhi :: "label list \<Rightarrow> jsstring option" where
  "reported_uhi [] = None"
| "reported_uhi (Warmer t # rest) = Some t"
| "reported_uhi (l # rest) = reported_uhi rest"

subsection \<open>The whole script\<close>

text \<open>The script from the two archives to its outputs.  The composites of an empty scene
  set have no bands: the index rasters, the masks, the regional means, the intensity
  raster and the city means then fail, and the callback receives \<^verbatim>\<open>undefined\<close>.\<close>

record outputs =
  out_lstMean :: "image option"
  out_urbanMask :: "image option"
  out_ruralMask :: "image option"
  out_urbanTemp :: "ee_error + real option"
  out_ruralTemp :: "ee_error + real option"
  out_uhiIntensity :: "ee_error + image"
  out_cities :: "(string \<times> (ee_error + real option)) list"
  out_statsPanel :: "label list \<times> js_error option"

definition script ::
  "scene list \<Rightarrow> scene list \<Rightarrow> geometry \<Rightarrow> (real \<times> real \<Rightarrow> nat \<Rightarrow> geometry) \<Rightarrow> outputs" where
  "script lc08 lc09 javaBounds buffer_of =
     (let scenes = landsat lc08 lc09 javaBounds;
          lst = lstMean scenes javaBounds;
          med = median scenes;
          urban = map_option (\<lambda>m. urbanMask (ndvi m) (ndbi m)) med;
          rural = map_option (\<lambda>m. ruralMask (ndvi m) (ndbi m)) med;
          u = (case lst of None \<Rightarrow> Inl MissingBand
               | Some l \<Rightarrow> (case urban of None \<Rightarrow> Inl MissingBand
                   | Some um \<Rightarrow> urbanTemp l um javaBounds));
          r = (case lst of None \<Rightarrow> Inl MissingBand
               | Some l \<Rightarrow> (case rural of None \<Rightarrow> Inl MissingBand
                   | Some rm \<Rightarrow> ruralTemp l rm javaBounds))
      in \<lparr> out_lstMean = lst, out_urbanMask = urban, out_ruralMask = rural,
           out_urbanTemp = u, out_ruralTemp = r,
           out_uhiIntensity =
             (case lst of None \<Rightarrow> Inl MissingBand
              | Some l \<Rightarrow> (case urban of None \<Rightarrow> Inl MissingBand
                  | Some um \<Rightarrow> uhiIntensity l um r)),
           out_cities =
             (case lst of None \<Rightarrow> map (\<lambda>c. (name c, Inl MissingBand)) cities
              | Some l \<Rightarrow> city_report buffer_of l),
           out_statsPanel = statsCallback (evaluate u) (evaluate r) [title] \<rparr>)"

text \<open>The statistics the panel shows: the texts of its \<open>Celsius\<close> and \<open>Warmer\<close>
  labels.\<close>

fun shown_statistics :: "label list \<Rightarrow> jsstring list" where
  "shown_statistics [] = []"
| "shown_statistics (Celsius t # rest) = t # shown_statistics rest"
| "shown_statistics (Warmer t # rest) = t # shown_statistics rest"
| "shown_statistics (l # rest) = shown_statistics rest"

subsection \<open>Double precision\<close>





section \<open>The notions of the specification\<close>

text \<open>A pixel is in a mask when the mask image is unmasked and non-zero there: these are
  the pixels \<^verbatim>\<open>updateMask\<close> keeps.\<close>

definition in_mask :: "image \<Rightarrow> pixel \<Rightarrow> bool" where
  "in_mask m p = (case m p of None \<Rightarrow> False | Some k \<Rightarrow> k \<noteq> 0)"

text \<open>The arithmetic mean of a list of values and the weighted mean of a list of
  (value, weight) pairs, undefined on the empty list.\<close>

definition arithmetic_mean :: "real list \<Rightarrow> real option" where
  "arithmetic_mean xs = (if xs = [] then None else Some (sum_list xs / real (length xs)))"

definition weighted_mean :: "(real \<times> real) list \<Rightarrow> real option" where
  "weighted_mean vws =
     (if vws = [] then None
      else Some (sum_list (map (\<lambda>(v, w). v * w) vws) / sum_list (map snd vws)))"

text \<open>The median of a list of values, by rank and without sorting: the element of rank
  \<open>k\<close> (counted from 0) is the one that has at most \<open>k\<close> values below it and more
  than \<open>k\<close> values not above it; the median is the element of the middle rank, or the
  mean of the elements of the two middle ranks when the number of values is even.\<close>

definition kth_smallest :: "real list \<Rightarrow> nat \<Rightarrow> real option" where
  "kth_smallest xs k =
     List.find (\<lambda>x. length (filter (\<lambda>y. y < x) xs) \<le> k \<and>
                     k < length (filter (\<lambda>y. y \<le> x) xs)) xs"

definition median_by_rank :: "real list \<Rightarrow> real option" where
  "median_by_rank xs =
     (let n = length xs in
      if n = 0 then None
      else if odd n then kth_smallest xs (n div 2)
      else (case kth_smallest xs (n div 2 - 1) of
              None \<Rightarrow> None
            | Some a \<Rightarrow> (case kth_smallest xs (n div 2) of
                          None \<Rightarrow> None
                        | Some b \<Rightarrow> Some ((a + b) / 2))))"

text \<open>\<open>RegionMean(raster, mask, geometry)\<close> in the words of the spec (4.4): restrict the
  raster to the mask and take the area-weighted mean of the valid pixels intersecting the
  geometry.\<close>

definition valid_pixels :: "image \<Rightarrow> image \<Rightarrow> geometry \<Rightarrow> geometry" where
  "valid_pixels raster msk g =
     filter (\<lambda>(p, w). 0 < w \<and> in_mask msk p \<and> raster p \<noteq> None) g"

definition RegionMean :: "image \<Rightarrow> image \<Rightarrow> geometry \<Rightarrow> real option" where
  "RegionMean raster msk g =
     weighted_mean (map (\<lambda>(p, w). (the (raster p), w)) (valid_pixels raster msk g))"

definition full_mask :: image where
  "full_mask = (\<lambda>p. Some 1)"

definition intersection :: "geometry \<Rightarrow> geometry \<Rightarrow> geometry" where
  "intersection g boundary = filter (\<lambda>(p, w). covered boundary p) g"

text \<open>The synthetic raster of the spec (8): four pixels, two of them urban with LST 30 and
  34, two of them rural with LST 24 and 26; the index values put them into the masks.\<close>

definition synthetic_LST :: image where
  "synthetic_LST = [0 \<mapsto> 30, 1 \<mapsto> 34, 2 \<mapsto> 24, 3 \<mapsto> 26]"

definition synthetic_NDVI :: image where
  "synthetic_NDVI = [0 \<mapsto> 0.1, 1 \<mapsto> 0.05, 2 \<mapsto> 0.6, 3 \<mapsto> 0.7]"

definition synthetic_NDBI :: image where
  "synthetic_NDBI = [0 \<mapsto> 0.3, 1 \<mapsto> 0.2, 2 \<mapsto> - 0.3, 3 \<mapsto> - 0.2]"

definition synthetic_boundary :: geometry where
  "synthetic_boundary = [(0, 1), (1, 1), (2, 1), (3, 1)]"

text \<open>Scenes over one pixel, for the two ways of compositing: the values are the bands
  \<^verbatim>\<open>SR_B4\<close>, \<^verbatim>\<open>SR_B5\<close>, \<^verbatim>\<open>SR_B6\<close> and \<^verbatim>\<open>ST_B10\<close> at pixel 0.  The three
  scenes of \<open>example_scenes\<close> are not in the order of their values; the fourth scene of
  \<open>example_scenes_even\<close> makes their number even.\<close>

definition example_scene :: "real \<Rightarrow> real \<Rightarrow> real \<Rightarrow> real \<Rightarrow> scene" where
  "example_scene red nir swir thermal =
     \<lparr> time_start = 1720000000000, CLOUD_COVER = 5, footprint = [0],
       scene_bands = \<lparr> SR_B4 = [0 \<mapsto> red], SR_B5 = [0 \<mapsto> nir], SR_B6 = [0 \<mapsto> swir],
                       ST_B10 = [0 \<mapsto> thermal] \<rparr> \<rparr>"

definition example_scenes :: "scene list" where
  "example_scenes =
     [example_scene 9000 5000 9000 45000,
      example_scene 1000 3000 2000 40000,
      example_scene 2000 4000 2500 41000]"

definition example_scenes_even :: "scene list" where
  "example_scenes_even = example_scenes @ [example_scene 4000 8000 3000 47000]"





definition cloudy_scene :: scene where
  "cloudy_scene = (example_scene 1000 3000 2000 40000) \<lparr> CLOUD_COVER := 50 \<rparr>"

definition example_buffer_of :: "real \<times> real \<Rightarrow> nat \<Rightarrow> geometry" where
  "example_buffer_of point radius = [(0, 1), (1, 1)]"

section \<open>The reducers compute the means of the specification\<close>

lemma mean_accumulate_sums:
  "mean_accumulate xs (s, t) =
     (s + sum_list (map (\<lambda>(v, w). v * w) xs), t + sum_list (map snd xs))"
  by (induction xs arbitrary: s t) (auto simp: algebra_simps)

lemma Reducer_mean_weighted: "Reducer_mean xs = weighted_mean xs"
  by (simp add: Reducer_mean_def weighted_mean_def mean_accumulate_sums)

lemma updateMask_in_mask: "updateMask img m p = (if in_mask m p then img p else None)"
  by (simp add: updateMask_def in_mask_def split: option.splits)

lemma region_inputs_filter:
  "region_inputs img g =
     map (\<lambda>(p, w). (the (img p), w)) (filter (\<lambda>(p, w). 0 < w \<and> img p \<noteq> None) g)"
proof (induction g)
  case Nil
  show ?case by simp
next
  case (Cons a g)
  obtain p w where a: "a = (p, w)" by (cases a)
  show ?case
  proof (cases "img p")
    case None
    with Cons a show ?thesis by simp
  next
    case (Some v)
    with Cons a show ?thesis by (cases "0 < w") simp_all
  qed
qed

lemma region_inputs_valid:
  "region_inputs (updateMask raster msk) g =
     map (\<lambda>(p, w). (the (raster p), w)) (valid_pixels raster msk g)"
proof -
  have f: "filter (\<lambda>(p, w). 0 < w \<and> updateMask raster msk p \<noteq> None) g =
           valid_pixels raster msk g"
    unfolding valid_pixels_def
    by (rule filter_cong) (auto simp: updateMask_in_mask split: if_splits)
  have "map (\<lambda>(p, w). (the (updateMask raster msk p), w)) (valid_pixels raster msk g) =
        map (\<lambda>(p, w). (the (raster p), w)) (valid_pixels raster msk g)"
    by (rule map_cong) (auto simp: valid_pixels_def updateMask_in_mask)
  with f show ?thesis by (simp add: region_inputs_filter)
qed

lemma updateMask_full: "updateMask raster full_mask = raster"
  by (rule ext) (simp add: updateMask_in_mask in_mask_def full_mask_def)

lemma reduceRegion_mean_RegionMean:
  "reduceRegion_mean (updateMask raster msk) args =
     (if maxPixels args < length (geometry args) then Inl TooManyPixels
      else Inr (RegionMean raster msk (geometry args)))"
  by (simp add: reduceRegion_mean_def RegionMean_def region_inputs_valid Reducer_mean_weighted)



lemma in_mask_urbanMask:
  "in_mask (urbanMask ndvi_img ndbi_img) p \<longleftrightarrow>
     (\<exists>v b. ndvi_img p = Some v \<and> ndbi_img p = Some b \<and> 0.1 < b \<and> v < 0.2)"
  by (auto simp: in_mask_def urbanMask_def selfMask_def and_img_def gt_def lt_def
      split: option.splits)

lemma in_mask_ruralMask:
  "in_mask (ruralMask ndvi_img ndbi_img) p \<longleftrightarrow>
     (\<exists>v b. ndvi_img p = Some v \<and> ndbi_img p = Some b \<and> 0.3 < v \<and> b < - 0.1)"
  by (auto simp: in_mask_def ruralMask_def and_img_def gt_def lt_def
      split: option.splits)

lemma synthetic_urban:
  "urbanTemp synthetic_LST (urbanMask synthetic_NDVI synthetic_NDBI) synthetic_boundary =
     Inr (Some 32)"
  by (simp add: urbanTemp_def urbanLST_def reduceRegion_mean_def Reducer_mean_def
      synthetic_LST_def synthetic_NDVI_def synthetic_NDBI_def synthetic_boundary_def
      urbanMask_def selfMask_def and_img_def gt_def lt_def updateMask_def)

lemma synthetic_rural:
  "ruralTemp synthetic_LST (ruralMask synthetic_NDVI synthetic_NDBI) synthetic_boundary =
     Inr (Some 25)"
  by (simp add: ruralTemp_def ruralLST_def reduceRegion_mean_def Reducer_mean_def
      synthetic_LST_def synthetic_NDVI_def synthetic_NDBI_def synthetic_boundary_def
      ruralMask_def and_img_def gt_def lt_def updateMask_def)

lemma toFixed2_7: "toFixed2 7 = Text ''7.00''"
  by (simp add: toFixed2_def decimal.simps digit_def)

lemma reported_uhi_title: "reported_uhi (title # rest) = reported_uhi rest"
  by (simp add: title_def)

lemma uhi_numbers: "uhi (Num u) (Num r) = toFixed2 (u - r)"
  by (simp add: uhi_def js_minus_def ToNumber_def)

lemma statsCallback_numbers:
  "statsCallback (Num u) (Num r) [title] =
     ([title, Heading ''Analysis Period:'', Period startDate endDate, Rule,
       Heading ''Average Urban LST:'', Celsius (toFixed2 u),
       Heading ''Average Rural LST:'', Celsius (toFixed2 r), Rule,
       Heading ''UHI Intensity:'', Celsius (toFixed2 (u - r)), Warmer (toFixed2 (u - r))],
      None)"
  by (simp add: statsCallback_def toFixed_def uhi_numbers Let_def)

section \<open>The median reducer computes the median by rank\<close>

lemma length_filter_mono:
  "(\<And>x. x \<in> set xs \<Longrightarrow> P x \<Longrightarrow> Q x) \<Longrightarrow> length (filter P xs) \<le> length (filter Q xs)"
  by (induction xs) auto

lemma length_filter_sort:
  fixes xs :: "real list"
  shows "length (filter P (sort xs)) = length (filter P xs)"
proof -
  have "mset (filter P (sort xs)) = mset (filter P xs)"
    by (simp add: mset_filter)
  then show ?thesis by (metis size_mset)
qed

lemma sorted_rank_below:
  fixes s :: "real list"
  assumes "sorted s" and "k < length s"
  shows "length (filter (\<lambda>y. y < s ! k) s) \<le> k"
proof -
  have "filter (\<lambda>y. y < s ! k) (drop k s) = []"
  proof -
    have "\<forall>y \<in> set (drop k s). \<not> y < s ! k"
    proof
      fix y assume "y \<in> set (drop k s)"
      then obtain i where "i < length (drop k s)" "y = drop k s ! i"
        by (auto simp: in_set_conv_nth)
      then have "y = s ! (k + i)" "k + i < length s" using assms(2) by auto
      with assms(1) have "s ! k \<le> y" by (auto intro: sorted_nth_mono)
      then show "\<not> y < s ! k" by simp
    qed
    then show ?thesis by (simp add: filter_empty_conv)
  qed
  moreover have "s = take k s @ drop k s" by simp
  ultimately have "filter (\<lambda>y. y < s ! k) s = filter (\<lambda>y. y < s ! k) (take k s)"
    by (metis append_Nil2 filter_append)
  then have "length (filter (\<lambda>y. y < s ! k) s) \<le> length (take k s)"
    by (metis length_filter_le)
  then show ?thesis by simp
qed

lemma sorted_rank_above:
  fixes s :: "real list"
  assumes "sorted s" and "k < length s"
  shows "k < length (filter (\<lambda>y. y \<le> s ! k) s)"
proof -
  have all: "\<forall>y \<in> set (take (Suc k) s). y \<le> s ! k"
  proof
    fix y assume "y \<in> set (take (Suc k) s)"
    then obtain i where "i < length (take (Suc k) s)" "y = take (Suc k) s ! i"
      by (auto simp: in_set_conv_nth)
    then have "y = s ! i" "i \<le> k" by auto
    with assms show "y \<le> s ! k" by (auto intro: sorted_nth_mono)
  qed
  have "s = take (Suc k) s @ drop (Suc k) s" by simp
  then have "length (filter (\<lambda>y. y \<le> s ! k) s) =
      length (filter (\<lambda>y. y \<le> s ! k) (take (Suc k) s)) +
      length (filter (\<lambda>y. y \<le> s ! k) (drop (Suc k) s))"
    by (metis filter_append length_append)
  moreover have "filter (\<lambda>y. y \<le> s ! k) (take (Suc k) s) = take (Suc k) s"
    using all by (simp add: filter_id_conv)
  moreover have "length (take (Suc k) s) = Suc k" using assms(2) by simp
  ultimately show ?thesis by simp
qed

lemma rank_unique:
  fixes xs :: "real list"
  assumes x: "length (filter (\<lambda>y. y < x) xs) \<le> k" "k < length (filter (\<lambda>y. y \<le> x) xs)"
    and z: "length (filter (\<lambda>y. y < z) xs) \<le> k" "k < length (filter (\<lambda>y. y \<le> z) xs)"
  shows "x = z"
proof (rule ccontr)
  assume "x \<noteq> z"
  then consider "x < z" | "z < x" by linarith
  then show False
  proof cases
    case 1
    then have "length (filter (\<lambda>y. y \<le> x) xs) \<le> length (filter (\<lambda>y. y < z) xs)"
      by (intro length_filter_mono) simp
    with x(2) z(1) show False by linarith
  next
    case 2
    then have "length (filter (\<lambda>y. y \<le> z) xs) \<le> length (filter (\<lambda>y. y < x) xs)"
      by (intro length_filter_mono) simp
    with z(2) x(1) show False by linarith
  qed
qed

lemma kth_smallest_sort:
  assumes "k < length xs"
  shows "kth_smallest xs k = Some (sort xs ! k)"
proof -
  let ?z = "sort xs ! k"
  let ?P = "\<lambda>x. length (filter (\<lambda>y. y < x) xs) \<le> k \<and> k < length (filter (\<lambda>y. y \<le> x) xs)"
  have k: "k < length (sort xs)" using assms by simp
  have Pz: "?P ?z"
    using sorted_rank_below [OF sorted_sort k] sorted_rank_above [OF sorted_sort k]
    by (simp add: length_filter_sort)
  have "?z \<in> set (sort xs)" using k by (rule nth_mem)
  then have zin: "?z \<in> set xs" by simp
  with Pz have "List.find ?P xs \<noteq> None"
    by (auto simp: find_None_iff)
  then obtain x where f: "List.find ?P xs = Some x" by blast
  then have "?P x" by (auto simp: find_Some_iff)
  with Pz have "x = ?z" by (blast intro: rank_unique)
  with f show ?thesis by (simp add: kth_smallest_def)
qed

lemma Reducer_median_by_rank: "Reducer_median xs = median_by_rank xs"
proof (cases "xs = []")
  case True
  then show ?thesis by (simp add: Reducer_median_def median_by_rank_def)
next
  case False
  then have n: "0 < length xs" by simp
  then have a: "length xs div 2 < length xs" by simp
  then have b: "length xs div 2 - Suc 0 < length xs" by simp
  have ne: "sort xs \<noteq> []"
    using False by (metis length_0_conv length_sort)
  show ?thesis
    using n ne by (simp add: Reducer_median_def median_by_rank_def Let_def
        kth_smallest_sort [OF a] kth_smallest_sort [OF b])
qed

section \<open>Properties of the operations and of the script\<close>

lemma normalizedDifference_range:
  assumes "normalizedDifference a b p = Some v"
  shows "- 1 \<le> v \<and> v \<le> 1"
proof -
  from assms obtain x y where xy: "a p = Some x" "b p = Some y"
    and nn: "0 \<le> x" "0 \<le> y" and nz: "x + y \<noteq> 0" and v: "v = (x - y) / (x + y)"
    by (auto simp: normalizedDifference_def split: option.splits if_splits)
  from nn nz have pos: "0 < x + y" by linarith
  have "- 1 \<le> (x - y) / (x + y)"
    using pos nn by (simp add: le_divide_eq)
  moreover have "(x - y) / (x + y) \<le> 1"
    using pos nn by (simp add: divide_le_eq)
  ultimately show ?thesis using v by simp
qed

lemma normalizedDifference_zero_denominator:
  "a p = Some x \<Longrightarrow> b p = Some y \<Longrightarrow> x + y = 0 \<Longrightarrow> normalizedDifference a b p = None"
  by (simp add: normalizedDifference_def)

lemma uhiIntensity_value:
  "uhiIntensity lst urban (Inr (Some r)) =
     Inr (\<lambda>p. if in_mask urban p then map_option (\<lambda>v. v - r) (lst p) else None)"
proof -
  have "updateMask (subtract (where_img lst (not_img urban) 0) r) urban p =
        (if in_mask urban p then map_option (\<lambda>v. v - r) (lst p) else None)" for p
    by (auto simp: updateMask_in_mask in_mask_def subtract_def where_img_def not_img_def
        split: option.splits)
  then have "updateMask (subtract (where_img lst (not_img urban) 0) r) urban =
      (\<lambda>p. if in_mask urban p then map_option (\<lambda>v. v - r) (lst p) else None)"
    by (intro ext)
  then show ?thesis by (simp add: uhiIntensity_def)
qed

lemma Reducer_mean_unit_weights:
  "Reducer_mean (map (\<lambda>v. (v, 1)) xs) = arithmetic_mean xs"
proof -
  have "sum_list (map snd (map (\<lambda>v. (v, 1::real)) xs)) = real (length xs)"
    by (induction xs) auto
  moreover have "sum_list (map (\<lambda>(v, w). v * w) (map (\<lambda>v. (v, 1::real)) xs)) = sum_list xs"
    by (induction xs) auto
  ultimately show ?thesis
    by (simp add: Reducer_mean_weighted weighted_mean_def arithmetic_mean_def)
qed

lemma calculateLST_affine:
  "calculateLST s p = map_option (\<lambda>t. t * 0.00341802 + 149.0 - 273.15) (ST_B10 (scene_bands s) p)"
  by (cases "ST_B10 (scene_bands s) p")
     (simp_all add: calculateLST_def subtract_def add_const_def multiply_def)

lemma band_mean_arithmetic_mean:
  "band_mean imgs p = arithmetic_mean (unmasked (map (\<lambda>img. img p) imgs))"
  by (simp add: band_mean_def Reducer_mean_unit_weights)

lemma lstMean_empty: "lstMean [] jb = None"
  by (simp add: lstMean_def collection_mean_def lstCollection_def)

lemma lstMean_nonempty:
  "scenes \<noteq> [] \<Longrightarrow> lstMean scenes jb = Some (clip (band_mean (lstCollection scenes)) jb)"
  by (simp add: lstMean_def collection_mean_def lstCollection_def)

lemma median_empty: "median [] = None"
  by (simp add: median_def)

lemma lstMean_pixel:
  "scenes \<noteq> [] \<Longrightarrow>
   map_option (\<lambda>lst. lst p) (lstMean scenes jb) =
     Some (if covered jb p
           then arithmetic_mean (unmasked (map (\<lambda>s. calculateLST s p) scenes))
           else None)"
  by (simp add: lstMean_nonempty clip_def band_mean_arithmetic_mean lstCollection_def comp_def)

lemma ndvi_pixel:
  "scenes \<noteq> [] \<Longrightarrow>
   map_option (\<lambda>m. ndvi m p) (median scenes) =
     Some (case median_by_rank (unmasked (map (\<lambda>s. SR_B5 (scene_bands s) p) scenes)) of
             None \<Rightarrow> None
           | Some nir \<Rightarrow>
               (case median_by_rank (unmasked (map (\<lambda>s. SR_B4 (scene_bands s) p) scenes)) of
                  None \<Rightarrow> None
                | Some red \<Rightarrow>
                    if nir < 0 \<or> red < 0 \<or> nir + red = 0 then None
                    else Some ((nir - red) / (nir + red))))"
  by (simp add: median_def ndvi_def normalizedDifference_def band_median_def comp_def
      Reducer_median_by_rank split: option.splits)

lemma ndbi_pixel:
  "scenes \<noteq> [] \<Longrightarrow>
   map_option (\<lambda>m. ndbi m p) (median scenes) =
     Some (case median_by_rank (unmasked (map (\<lambda>s. SR_B6 (scene_bands s) p) scenes)) of
             None \<Rightarrow> None
           | Some swir \<Rightarrow>
               (case median_by_rank (unmasked (map (\<lambda>s. SR_B5 (scene_bands s) p) scenes)) of
                  None \<Rightarrow> None
                | Some nir \<Rightarrow>
                    if swir < 0 \<or> nir < 0 \<or> swir + nir = 0 then None
                    else Some ((swir - nir) / (swir + nir))))"
  by (simp add: median_def ndbi_def normalizedDifference_def band_median_def comp_def
      Reducer_median_by_rank split: option.splits)

lemma example_lstMean:
  "map_option (\<lambda>lst. lst 0) (lstMean example_scenes [(0, 1)]) = Some (Some 19.40684)"
  by (simp add: lstMean_def collection_mean_def clip_def band_mean_arithmetic_mean
      lstCollection_def calculateLST_affine example_scenes_def example_scene_def covered_def
      arithmetic_mean_def)

lemma example_median_LST: "band_median (lstCollection example_scenes) 0 = Some 15.98882"
  by (simp add: band_median_def lstCollection_def calculateLST_affine example_scenes_def
      example_scene_def Reducer_median_def)

lemma example_ndvi:
  "map_option (\<lambda>m. ndvi m 0) (median example_scenes) = Some (Some (1 / 3))"
  by (simp add: ndvi_def median_def normalizedDifference_def band_median_def
      example_scenes_def example_scene_def Reducer_median_def)

lemma example_ndbi:
  "map_option (\<lambda>m. ndbi m 0) (median example_scenes) = Some (Some (- 3 / 13))"
  by (simp add: ndbi_def median_def normalizedDifference_def band_median_def
      example_scenes_def example_scene_def Reducer_median_def)

lemma example_ndvi_of_mean:
  "normalizedDifference
     (band_mean (map (\<lambda>s. SR_B5 (scene_bands s)) example_scenes))
     (band_mean (map (\<lambda>s. SR_B4 (scene_bands s)) example_scenes)) 0 = Some 0"
  by (simp add: normalizedDifference_def band_mean_def Reducer_mean_def
      example_scenes_def example_scene_def)

lemma example_even_lstMean:
  "map_option (\<lambda>lst. lst 0) (lstMean example_scenes_even [(0, 1)]) = Some (Some 23.679365)"
  by (simp add: lstMean_def collection_mean_def clip_def band_mean_arithmetic_mean
      lstCollection_def calculateLST_affine example_scenes_even_def example_scenes_def
      example_scene_def covered_def arithmetic_mean_def)

lemma example_even_median_LST:
  "band_median (lstCollection example_scenes_even) 0 = Some 22.82486"
  by (simp add: band_median_def lstCollection_def calculateLST_affine example_scenes_even_def
      example_scenes_def example_scene_def Reducer_median_def)

lemma example_even_ndvi:
  "map_option (\<lambda>m. ndvi m 0) (median example_scenes_even) = Some (Some (1 / 5))"
  by (simp add: ndvi_def median_def normalizedDifference_def band_median_def
      example_scenes_even_def example_scenes_def example_scene_def Reducer_median_def)

lemma example_even_ndbi:
  "map_option (\<lambda>m. ndbi m 0) (median example_scenes_even) = Some (Some (- 7 / 29))"
  by (simp add: ndbi_def median_def normalizedDifference_def band_median_def
      example_scenes_even_def example_scenes_def example_scene_def Reducer_median_def)








lemma region_inputs_clip:
  "region_inputs (clip img boundary) g =
     map (\<lambda>(p, w). (the (img p), w)) (valid_pixels img full_mask (intersection g boundary))"
proof -
  have f: "filter (\<lambda>(p, w). 0 < w \<and> clip img boundary p \<noteq> None) g =
           valid_pixels img full_mask (intersection g boundary)"
    unfolding valid_pixels_def intersection_def filter_filter
    by (rule filter_cong) (auto simp: clip_def in_mask_def full_mask_def split: if_splits)
  have "map (\<lambda>(p, w). (the (clip img boundary p), w))
          (valid_pixels img full_mask (intersection g boundary)) =
        map (\<lambda>(p, w). (the (img p), w)) (valid_pixels img full_mask (intersection g boundary))"
    by (rule map_cong) (auto simp: valid_pixels_def intersection_def clip_def)
  with f show ?thesis by (simp add: region_inputs_filter)
qed

lemma region_inputs_all_masked:
  "\<forall>x \<in> set g. img (fst x) = None \<Longrightarrow> region_inputs img g = []"
  by (induction g) auto



lemma cityLST_clip:
  "length buffer \<le> 10 ^ 13 \<Longrightarrow>
   cityLST (clip img jb) buffer = Inr (RegionMean img full_mask (intersection buffer jb))"
  by (simp add: cityLST_def reduceRegion_mean_def region_inputs_clip RegionMean_def
      Reducer_mean_weighted)

lemma clip_cong: "(\<forall>p. covered jb p \<longrightarrow> lst1 p = lst2 p) \<Longrightarrow> clip lst1 jb = clip lst2 jb"
  by (rule ext) (simp add: clip_def)

lemma example_band_mean:
  "band_mean (lstCollection example_scenes) 0 = Some 19.40684"
  "band_mean (lstCollection example_scenes) (Suc 0) = None"
  by (simp_all add: band_mean_def lstCollection_def calculateLST_affine
      example_scenes_def example_scene_def Reducer_mean_def)

lemma example_RegionMean:
  "RegionMean (band_mean (lstCollection example_scenes)) full_mask
     (intersection [(0, 1), (1, 1)] [(0, 1)]) = Some 19.40684"
  by (simp add: RegionMean_def valid_pixels_def intersection_def covered_def in_mask_def
      full_mask_def weighted_mean_def example_band_mean del: not_None_eq)

lemma landsat_cloudy: "landsat [] [cloudy_scene] synthetic_boundary = []"
  by (simp add: landsat_def filterDate_def filterBounds_def startDate_def endDate_def
      covered_def synthetic_boundary_def cloudy_scene_def example_scene_def)

lemma landsat_example:
  "landsat example_scenes [cloudy_scene] synthetic_boundary = example_scenes"
  by (simp add: landsat_def filterDate_def filterBounds_def startDate_def endDate_def
      covered_def synthetic_boundary_def cloudy_scene_def example_scenes_def example_scene_def)

lemma statsCallback_null:
  "statsCallback Null rTemp [title] =
     ([title, Heading ''Analysis Period:'', Period startDate endDate, Rule,
       Heading ''Average Urban LST:''], Some TypeError)"
  by (simp add: statsCallback_def toFixed_def Let_def)

lemma statsCallback_undefined:
  "statsCallback Undefined rTemp [title] =
     ([title, Heading ''Analysis Period:'', Period startDate endDate, Rule,
       Heading ''Average Urban LST:''], Some TypeError)"
  by (simp add: statsCallback_def toFixed_def Let_def)

lemma uhi_null: "uhi Null Null = Text ''0.00''"
  by (simp add: uhi_def js_minus_def ToNumber_def toFixed2_def decimal.simps digit_def)

lemma uhi_undefined: "uhi Undefined Undefined = Text ''NaN''"
  by (simp add: uhi_def js_minus_def ToNumber_def)

section \<open>Rounding to double precision\<close>












section \<open>The script on an empty scene set\<close>

lemma shown_statistics_title: "shown_statistics (title # rest) = shown_statistics rest"
  by (simp add: title_def)

lemma script_empty:
  assumes "landsat lc08 lc09 javaBounds = []"
  shows "out_lstMean (script lc08 lc09 javaBounds buffer_of) = None"
    and "out_urbanMask (script lc08 lc09 javaBounds buffer_of) = None"
    and "out_ruralMask (script lc08 lc09 javaBounds buffer_of) = None"
    and "out_urbanTemp (script lc08 lc09 javaBounds buffer_of) = Inl MissingBand"
    and "out_ruralTemp (script lc08 lc09 javaBounds buffer_of) = Inl MissingBand"
    and "out_uhiIntensity (script lc08 lc09 javaBounds buffer_of) = Inl MissingBand"
    and "map snd (out_cities (script lc08 lc09 javaBounds buffer_of)) =
           map (\<lambda>c. Inl MissingBand) cities"
    and "out_statsPanel (script lc08 lc09 javaBounds buffer_of) =
           ([title, Heading ''Analysis Period:'', Period startDate endDate, Rule,
             Heading ''Average Urban LST:''], Some TypeError)"
  using assms
  by (simp_all add: script_def Let_def lstMean_empty median_empty evaluate_def
      statsCallback_undefined comp_def)




section \<open>The claims\<close>

subsection \<open>C1: the scalar intensity\<close>

text \<open>
  C1.  The scalar UHI intensity is the region mean of the LST composite over the urban mask
  minus the region mean over the rural mask, both over the same boundary at the same
  scale.  When the boundary is within the pixel limit, \<open>urbanTemp\<close> and \<open>ruralTemp\<close> are
  the \<open>RegionMean\<close> of the spec for the two masks, and when both are numbers the text
  \<open>uhi\<close> is their difference printed with two decimals.  On the synthetic four-pixel
  raster the urban mean is 32, the rural mean is 25, and the intensity is 7.00, which is
  also what the panel shows.
\<close>

theorem uhi_is_urban_mean_minus_rural_mean:
  "(length javaBounds \<le> 10 ^ 13 \<longrightarrow>
      urbanTemp lst urban javaBounds = Inr (RegionMean lst urban javaBounds) \<and>
      ruralTemp lst rural javaBounds = Inr (RegionMean lst rural javaBounds) \<and>
      (\<forall>u r. RegionMean lst urban javaBounds = Some u \<and>
             RegionMean lst rural javaBounds = Some r \<longrightarrow>
         uhi (evaluate (urbanTemp lst urban javaBounds))
             (evaluate (ruralTemp lst rural javaBounds)) = toFixed2 (u - r))) \<and>
   urbanTemp synthetic_LST (urbanMask synthetic_NDVI synthetic_NDBI) synthetic_boundary =
     Inr (Some 32) \<and>
   ruralTemp synthetic_LST (ruralMask synthetic_NDVI synthetic_NDBI) synthetic_boundary =
     Inr (Some 25) \<and>
   uhi (evaluate (urbanTemp synthetic_LST (urbanMask synthetic_NDVI synthetic_NDBI)
                    synthetic_boundary))
       (evaluate (ruralTemp synthetic_LST (ruralMask synthetic_NDVI synthetic_NDBI)
                    synthetic_boundary)) = Text ''7.00'' \<and>
   reported_uhi (fst (statsCallback
       (evaluate (urbanTemp synthetic_LST (urbanMask synthetic_NDVI synthetic_NDBI)
                    synthetic_boundary))
       (evaluate (ruralTemp synthetic_LST (ruralMask synthetic_NDVI synthetic_NDBI)
                    synthetic_boundary)) [title])) = Some (Text ''7.00'')"
proof -
  have general: "urbanTemp lst urban javaBounds = Inr (RegionMean lst urban javaBounds) \<and>
      ruralTemp lst rural javaBounds = Inr (RegionMean lst rural javaBounds) \<and>
      (\<forall>u r. RegionMean lst urban javaBounds = Some u \<and>
             RegionMean lst rural javaBounds = Some r \<longrightarrow>
         uhi (evaluate (urbanTemp lst urban javaBounds))
             (evaluate (ruralTemp lst rural javaBounds)) = toFixed2 (u - r))"
    if "length javaBounds \<le> 10 ^ 13"
  proof -
    have u: "urbanTemp lst urban javaBounds = Inr (RegionMean lst urban javaBounds)"
      using that by (simp add: urbanTemp_def urbanLST_def reduceRegion_mean_RegionMean)
    have r: "ruralTemp lst rural javaBounds = Inr (RegionMean lst rural javaBounds)"
      using that by (simp add: ruralTemp_def ruralLST_def reduceRegion_mean_RegionMean)
    show ?thesis
      by (simp add: u r evaluate_def uhi_numbers)
  qed
  have seven: "toFixed2 (32 - 25) = Text ''7.00''"
    using toFixed2_7 by simp
  have example: "uhi (Num 32) (Num 25) = Text ''7.00''"
    by (simp only: uhi_numbers seven)
  have panel: "reported_uhi (fst (statsCallback (Num 32) (Num 25) [title])) = Some (Text ''7.00'')"
    by (simp add: statsCallback_numbers toFixed2_7 reported_uhi_title)
  show ?thesis
    using general example panel
    by (simp add: synthetic_urban synthetic_rural evaluate_def uhi_numbers)
qed

theorem uhi_is_urban_mean_minus_rural_mean_witness:
  "length synthetic_boundary \<le> 10 ^ 13 \<and>
   RegionMean synthetic_LST (urbanMask synthetic_NDVI synthetic_NDBI) synthetic_boundary =
     Some 32 \<and>
   RegionMean synthetic_LST (ruralMask synthetic_NDVI synthetic_NDBI) synthetic_boundary =
     Some 25 \<and>
   uhi (Num 32) (Num 25) = toFixed2 (32 - 25)"
proof -
  have len: "length synthetic_boundary \<le> 10 ^ 13"
    by (simp add: synthetic_boundary_def)
  note t = uhi_is_urban_mean_minus_rural_mean [of synthetic_boundary synthetic_LST
      "urbanMask synthetic_NDVI synthetic_NDBI" "ruralMask synthetic_NDVI synthetic_NDBI"]
  from t len have
    "Inr (RegionMean synthetic_LST (urbanMask synthetic_NDVI synthetic_NDBI)
            synthetic_boundary) = (Inr (Some 32) :: ee_error + real option)"
    by metis
  then have u: "RegionMean synthetic_LST (urbanMask synthetic_NDVI synthetic_NDBI)
      synthetic_boundary = Some 32"
    by simp
  from t len have
    "Inr (RegionMean synthetic_LST (ruralMask synthetic_NDVI synthetic_NDBI)
            synthetic_boundary) = (Inr (Some 25) :: ee_error + real option)"
    by metis
  then have r: "RegionMean synthetic_LST (ruralMask synthetic_NDVI synthetic_NDBI)
      synthetic_boundary = Some 25"
    by simp
  show ?thesis
    using len u r by (simp add: uhi_numbers)
qed

subsection \<open>C2: mean composite for LST, median composite for the indices\<close>

text \<open>
  C2.  At every pixel the LST of a scene is \<open>thermal * 0.00341802 + 149.0 - 273.15\<close>.
  For a scene set that is not empty, the LST composite is the arithmetic mean of these
  values over the scenes that have one at the pixel (inside the boundary the composite is
  clipped to), and NDVI and NDBI are the normalized differences of the medians of the
  bands over the scenes, where the median is the value of the middle rank (the mean of
  the two middle ranks for an even number of values), whatever the order of the scenes.
  The two ways of compositing differ.  For the three example scenes, which are not in the
  order of their values, the composite LST is the mean 19.40684, not the median 15.98882,
  and NDVI is 1/3 from the median composite, where the mean composite would give 0.  For
  the four example scenes the composite LST is 23.679365, the median would be 22.82486,
  and NDVI and NDBI are 1/5 and -7/29.
\<close>

theorem compositing:
  "calculateLST s p =
     map_option (\<lambda>t. t * 0.00341802 + 149.0 - 273.15) (ST_B10 (scene_bands s) p) \<and>
   (scenes \<noteq> [] \<longrightarrow>
      map_option (\<lambda>lst. lst p) (lstMean scenes javaBounds) =
        Some (if covered javaBounds p
              then arithmetic_mean (unmasked (map (\<lambda>s. calculateLST s p) scenes))
              else None) \<and>
      map_option (\<lambda>m. ndvi m p) (median scenes) =
        Some (case median_by_rank (unmasked (map (\<lambda>s. SR_B5 (scene_bands s) p) scenes)) of
                None \<Rightarrow> None
              | Some nir \<Rightarrow>
                  (case median_by_rank (unmasked (map (\<lambda>s. SR_B4 (scene_bands s) p) scenes)) of
                     None \<Rightarrow> None
                   | Some red \<Rightarrow>
                       if nir < 0 \<or> red < 0 \<or> nir + red = 0 then None
                       else Some ((nir - red) / (nir + red)))) \<and>
      map_option (\<lambda>m. ndbi m p) (median scenes) =
        Some (case median_by_rank (unmasked (map (\<lambda>s. SR_B6 (scene_bands s) p) scenes)) of
                None \<Rightarrow> None
              | Some swir \<Rightarrow>
                  (case median_by_rank (unmasked (map (\<lambda>s. SR_B5 (scene_bands s) p) scenes)) of
                     None \<Rightarrow> None
                   | Some nir \<Rightarrow>
                       if swir < 0 \<or> nir < 0 \<or> swir + nir = 0 then None
                       else Some ((swir - nir) / (swir + nir))))) \<and>
   map_option (\<lambda>lst. lst 0) (lstMean example_scenes [(0, 1)]) = Some (Some 19.40684) \<and>
   band_median (lstCollection example_scenes) 0 = Some 15.98882 \<and>
   map_option (\<lambda>m. ndvi m 0) (median example_scenes) = Some (Some (1 / 3)) \<and>
   normalizedDifference
     (band_mean (map (\<lambda>s. SR_B5 (scene_bands s)) example_scenes))
     (band_mean (map (\<lambda>s. SR_B4 (scene_bands s)) example_scenes)) 0 = Some 0 \<and>
   map_option (\<lambda>m. ndbi m 0) (median example_scenes) = Some (Some (- 3 / 13)) \<and>
   map_option (\<lambda>lst. lst 0) (lstMean example_scenes_even [(0, 1)]) = Some (Some 23.679365) \<and>
   band_median (lstCollection example_scenes_even) 0 = Some 22.82486 \<and>
   map_option (\<lambda>m. ndvi m 0) (median example_scenes_even) = Some (Some (1 / 5)) \<and>
   map_option (\<lambda>m. ndbi m 0) (median example_scenes_even) = Some (Some (- 7 / 29))"
proof -
  have general: "scenes \<noteq> [] \<longrightarrow>
      map_option (\<lambda>lst. lst p) (lstMean scenes javaBounds) =
        Some (if covered javaBounds p
              then arithmetic_mean (unmasked (map (\<lambda>s. calculateLST s p) scenes))
              else None) \<and>
      map_option (\<lambda>m. ndvi m p) (median scenes) =
        Some (case median_by_rank (unmasked (map (\<lambda>s. SR_B5 (scene_bands s) p) scenes)) of
                None \<Rightarrow> None
              | Some nir \<Rightarrow>
                  (case median_by_rank (unmasked (map (\<lambda>s. SR_B4 (scene_bands s) p) scenes)) of
                     None \<Rightarrow> None
                   | Some red \<Rightarrow>
                       if nir < 0 \<or> red < 0 \<or> nir + red = 0 then None
                       else Some ((nir - red) / (nir + red)))) \<and>
      map_option (\<lambda>m. ndbi m p) (median scenes) =
        Some (case median_by_rank (unmasked (map (\<lambda>s. SR_B6 (scene_bands s) p) scenes)) of
                None \<Rightarrow> None
              | Some swir \<Rightarrow>
                  (case median_by_rank (unmasked (map (\<lambda>s. SR_B5 (scene_bands s) p) scenes)) of
                     None \<Rightarrow> None
                   | Some nir \<Rightarrow>
                       if swir < 0 \<or> nir < 0 \<or> swir + nir = 0 then None
                       else Some ((swir - nir) / (swir + nir))))"
    using lstMean_pixel [of scenes p javaBounds] ndvi_pixel [of scenes p]
      ndbi_pixel [of scenes p]
    by blast
  from calculateLST_affine [of s p] general
    example_lstMean example_median_LST example_ndvi example_ndvi_of_mean example_ndbi
    example_even_lstMean example_even_median_LST example_even_ndvi example_even_ndbi
  show ?thesis by (intro conjI)
qed

theorem compositing_witness:
  "example_scenes \<noteq> [] \<and>
   covered [(0, 1)] 0 \<and>
   arithmetic_mean (unmasked (map (\<lambda>s. calculateLST s 0) example_scenes)) = Some 19.40684 \<and>
   median_by_rank (unmasked (map (\<lambda>s. SR_B5 (scene_bands s) 0) example_scenes)) = Some 4000 \<and>
   median_by_rank (unmasked (map (\<lambda>s. SR_B4 (scene_bands s) 0) example_scenes)) = Some 2000"
proof -
  have ne: "example_scenes \<noteq> []" by (simp add: example_scenes_def)
  have c: "covered [(0, 1)] 0" by (simp add: covered_def)
  note th = compositing [where scenes = example_scenes and javaBounds = "[(0, 1)]" and p = 0]
  from th ne have "map_option (\<lambda>lst. lst 0) (lstMean example_scenes [(0, 1)]) =
      Some (if covered [(0, 1)] 0
            then arithmetic_mean (unmasked (map (\<lambda>s. calculateLST s 0) example_scenes))
            else None)"
    by blast
  moreover from th have
    "map_option (\<lambda>lst. lst 0) (lstMean example_scenes [(0, 1)]) = Some (Some 19.40684)"
    by blast
  ultimately have m: "arithmetic_mean (unmasked (map (\<lambda>s. calculateLST s 0) example_scenes)) =
      Some 19.40684"
    using c by simp
  have nir: "median_by_rank (unmasked (map (\<lambda>s. SR_B5 (scene_bands s) 0) example_scenes)) =
      Some 4000"
    by (simp add: median_by_rank_def kth_smallest_def example_scenes_def example_scene_def)
  have red: "median_by_rank (unmasked (map (\<lambda>s. SR_B4 (scene_bands s) 0) example_scenes)) =
      Some 2000"
    by (simp add: median_by_rank_def kth_smallest_def example_scenes_def example_scene_def)
  from ne c m nir red show ?thesis by (intro conjI)
qed

subsection \<open>C3: membership in the masks\<close>

text \<open>
  C3.  Where NDVI and NDBI are defined, a pixel is in the urban mask if and only if
  NDBI > 0.1 and NDVI < 0.2, it is in the rural mask if and only if NDVI > 0.3 and
  NDBI < -0.1, and a pixel that satisfies neither predicate is in neither mask.
\<close>

theorem mask_membership:
  assumes "ndvi_img p = Some v" and "ndbi_img p = Some b"
  shows "(in_mask (urbanMask ndvi_img ndbi_img) p \<longleftrightarrow> 0.1 < b \<and> v < 0.2) \<and>
         (in_mask (ruralMask ndvi_img ndbi_img) p \<longleftrightarrow> 0.3 < v \<and> b < - 0.1) \<and>
         (\<not> (0.1 < b \<and> v < 0.2) \<and> \<not> (0.3 < v \<and> b < - 0.1) \<longrightarrow>
            \<not> in_mask (urbanMask ndvi_img ndbi_img) p \<and>
            \<not> in_mask (ruralMask ndvi_img ndbi_img) p)"
  using assms by (simp add: in_mask_urbanMask in_mask_ruralMask)

theorem mask_membership_witness:
  "synthetic_NDVI 0 = Some 0.1 \<and> synthetic_NDBI 0 = Some 0.3 \<and>
   in_mask (urbanMask synthetic_NDVI synthetic_NDBI) 0 \<and>
   \<not> in_mask (ruralMask synthetic_NDVI synthetic_NDBI) 0"
proof -
  have v: "synthetic_NDVI 0 = Some 0.1" by (simp add: synthetic_NDVI_def)
  have b: "synthetic_NDBI 0 = Some 0.3" by (simp add: synthetic_NDBI_def)
  show ?thesis
    using v b
      mask_membership [where ndvi_img = synthetic_NDVI and ndbi_img = synthetic_NDBI
        and p = 0, OF v b]
    by simp
qed

subsection \<open>C4: the masks are disjoint\<close>

text \<open>
  C4.  The urban and the rural mask are disjoint: for all NDVI and NDBI rasters, masked
  pixels included, no pixel is in both masks.
\<close>

theorem masks_disjoint:
  "\<not> (in_mask (urbanMask ndvi_img ndbi_img) p \<and> in_mask (ruralMask ndvi_img ndbi_img) p)"
  by (auto simp: in_mask_urbanMask in_mask_ruralMask)

subsection \<open>C5: an empty scene set\<close>

text \<open>
  C5, as stated, fails.  With an empty scene set (the only scene is too cloudy) the
  callback of the statistics panel does not report the statistics as undefined.  The two
  means have failed, so the callback receives \<^verbatim>\<open>undefined\<close> twice: it computes the
  intensity text NaN from them without any check and then throws a TypeError at
  \<^verbatim>\<open>uTemp.toFixed(2)\<close>, so the panel ends after the heading of the urban mean.  Had the
  two means been null instead, the callback would compute the text 0.00 and throw in the
  same place.
\<close>

theorem empty_scene_set_counterexample:
  "landsat [] [cloudy_scene] synthetic_boundary = [] \<and>
   out_statsPanel (script [] [cloudy_scene] synthetic_boundary example_buffer_of) =
     ([title, Heading ''Analysis Period:'', Period startDate endDate, Rule,
       Heading ''Average Urban LST:''], Some TypeError) \<and>
   uhi (evaluate (out_urbanTemp (script [] [cloudy_scene] synthetic_boundary example_buffer_of)))
       (evaluate (out_ruralTemp (script [] [cloudy_scene] synthetic_boundary example_buffer_of))) =
     Text ''NaN'' \<and>
   statsCallback Null Null [title] =
     ([title, Heading ''Analysis Period:'', Period startDate endDate, Rule,
       Heading ''Average Urban LST:''], Some TypeError) \<and>
   uhi Null Null = Text ''0.00''"
proof -
  note e = script_empty [OF landsat_cloudy, of example_buffer_of]
  have z: "uhi (evaluate (out_urbanTemp
         (script [] [cloudy_scene] synthetic_boundary example_buffer_of)))
       (evaluate (out_ruralTemp
         (script [] [cloudy_scene] synthetic_boundary example_buffer_of))) = Text ''NaN''"
    by (simp add: e evaluate_def uhi_undefined)
  from landsat_cloudy e(8) z statsCallback_null [of Null] uhi_null
  show ?thesis by (intro conjI)
qed

text \<open>
  C5, amended.  For every boundary and date range whose filtered scene set is empty, no
  derived statistic is a number: the composites have no band, the urban mean LST, the
  rural mean LST, the intensity raster and every city mean LST fail with an error of the
  platform, and the statistics panel shows no urban mean, no rural mean and no intensity,
  so neither zero nor NaN is reported.
\<close>

theorem empty_scene_set_statistics_undefined:
  "landsat lc08 lc09 javaBounds = [] \<longrightarrow>
     out_lstMean (script lc08 lc09 javaBounds buffer_of) = None \<and>
     out_urbanTemp (script lc08 lc09 javaBounds buffer_of) = Inl MissingBand \<and>
     out_ruralTemp (script lc08 lc09 javaBounds buffer_of) = Inl MissingBand \<and>
     out_uhiIntensity (script lc08 lc09 javaBounds buffer_of) = Inl MissingBand \<and>
     map snd (out_cities (script lc08 lc09 javaBounds buffer_of)) =
       map (\<lambda>c. Inl MissingBand) cities \<and>
     shown_statistics (fst (out_statsPanel (script lc08 lc09 javaBounds buffer_of))) = [] \<and>
     reported_uhi (fst (out_statsPanel (script lc08 lc09 javaBounds buffer_of))) = None"
proof
  assume a: "landsat lc08 lc09 javaBounds = []"
  note e = script_empty [OF a, of buffer_of]
  have s: "shown_statistics (fst (out_statsPanel (script lc08 lc09 javaBounds buffer_of))) = []"
    by (simp add: e(8) shown_statistics_title)
  have r: "reported_uhi (fst (out_statsPanel (script lc08 lc09 javaBounds buffer_of))) = None"
    by (simp add: e(8) reported_uhi_title)
  from e(1) e(4) e(5) e(6) e(7) s r
  show "out_lstMean (script lc08 lc09 javaBounds buffer_of) = None \<and>
     out_urbanTemp (script lc08 lc09 javaBounds buffer_of) = Inl MissingBand \<and>
     out_ruralTemp (script lc08 lc09 javaBounds buffer_of) = Inl MissingBand \<and>
     out_uhiIntensity (script lc08 lc09 javaBounds buffer_of) = Inl MissingBand \<and>
     map snd (out_cities (script lc08 lc09 javaBounds buffer_of)) =
       map (\<lambda>c. Inl MissingBand) cities \<and>
     shown_statistics (fst (out_statsPanel (script lc08 lc09 javaBounds buffer_of))) = [] \<and>
     reported_uhi (fst (out_statsPanel (script lc08 lc09 javaBounds buffer_of))) = None"
    by (intro conjI)
qed

theorem empty_scene_set_statistics_undefined_witness:
  "landsat [] [cloudy_scene] synthetic_boundary = [] \<and>
   out_lstMean (script [] [cloudy_scene] synthetic_boundary example_buffer_of) = None \<and>
   out_urbanTemp (script [] [cloudy_scene] synthetic_boundary example_buffer_of) =
     Inl MissingBand \<and>
   out_ruralTemp (script [] [cloudy_scene] synthetic_boundary example_buffer_of) =
     Inl MissingBand \<and>
   map snd (out_cities (script [] [cloudy_scene] synthetic_boundary example_buffer_of)) =
     [Inl MissingBand, Inl MissingBand, Inl MissingBand, Inl MissingBand, Inl MissingBand] \<and>
   reported_uhi (fst (out_statsPanel
      (script [] [cloudy_scene] synthetic_boundary example_buffer_of))) = None"
proof -
  note th = empty_scene_set_statistics_undefined [of "[]" "[cloudy_scene]" synthetic_boundary
      example_buffer_of]
  have c: "map (\<lambda>c. Inl MissingBand) cities =
      ([Inl MissingBand, Inl MissingBand, Inl MissingBand, Inl MissingBand,
        Inl MissingBand] :: (ee_error + real option) list)"
    by (simp add: cities_def)
  from th landsat_cloudy c show ?thesis by simp
qed

subsection \<open>C6: the intensity raster\<close>

text \<open>
  C6.  When the rural mean is a number \<open>r\<close>, the per-pixel intensity raster is the LST
  minus \<open>r\<close> at every pixel of the urban mask and is masked at every other pixel.  (The
  \<^verbatim>\<open>where\<close> of line 86 changes nothing on the pixels that survive the final
  \<^verbatim>\<open>updateMask\<close>.)
\<close>

theorem uhiIntensity_raster:
  "uhiIntensity lst urban (Inr (Some r)) =
     Inr (\<lambda>p. if in_mask urban p then map_option (\<lambda>v. v - r) (lst p) else None) \<and>
   (ruralTemp lst rural javaBounds = Inr (Some r) \<longrightarrow>
      (\<exists>raster. uhiIntensity lst urban (ruralTemp lst rural javaBounds) = Inr raster \<and>
         (\<forall>p. (in_mask urban p \<longrightarrow> raster p = map_option (\<lambda>v. v - r) (lst p)) \<and>
              (\<not> in_mask urban p \<longrightarrow> raster p = None))))"
  by (simp add: uhiIntensity_value)

theorem uhiIntensity_raster_witness:
  "ruralTemp synthetic_LST (ruralMask synthetic_NDVI synthetic_NDBI) synthetic_boundary =
     Inr (Some 25) \<and>
   (\<exists>raster. uhiIntensity synthetic_LST (urbanMask synthetic_NDVI synthetic_NDBI)
        (ruralTemp synthetic_LST (ruralMask synthetic_NDVI synthetic_NDBI) synthetic_boundary) =
        Inr raster \<and>
      raster 0 = Some 5 \<and> raster 1 = Some 9 \<and> raster 2 = None \<and> raster 3 = None \<and>
      raster 4 = None)"
proof -
  let ?urban = "urbanMask synthetic_NDVI synthetic_NDBI"
  let ?rural = "ruralMask synthetic_NDVI synthetic_NDBI"
  have r: "ruralTemp synthetic_LST ?rural synthetic_boundary = Inr (Some 25)"
    by (rule synthetic_rural)
  from uhiIntensity_raster [of synthetic_LST ?urban 25 ?rural synthetic_boundary] r
  obtain raster where
    eq: "uhiIntensity synthetic_LST ?urban (ruralTemp synthetic_LST ?rural synthetic_boundary) =
         Inr raster"
    and v: "\<forall>p. (in_mask ?urban p \<longrightarrow> raster p = map_option (\<lambda>v. v - 25) (synthetic_LST p)) \<and>
              (\<not> in_mask ?urban p \<longrightarrow> raster p = None)"
    by blast
  have m: "in_mask ?urban 0" "in_mask ?urban 1" "\<not> in_mask ?urban 2" "\<not> in_mask ?urban 3"
    "\<not> in_mask ?urban 4"
    by (simp_all add: in_mask_def urbanMask_def selfMask_def and_img_def gt_def lt_def
        synthetic_NDVI_def synthetic_NDBI_def)
  have l: "synthetic_LST 0 = Some 30" "synthetic_LST 1 = Some 34"
    by (simp_all add: synthetic_LST_def)
  from v m l have "raster 0 = Some 5 \<and> raster 1 = Some 9 \<and> raster 2 = None \<and>
      raster 3 = None \<and> raster 4 = None"
    by simp
  with r eq show ?thesis by blast
qed

subsection \<open>C7: range of the indices, zero denominators\<close>

text \<open>
  C7.  Wherever NDVI or NDBI is defined its value lies between -1 and 1, and at a pixel
  whose denominator is zero the index is a no-data pixel.
\<close>

theorem index_range_and_zero_denominator:
  "(ndvi med p = Some v \<longrightarrow> - 1 \<le> v \<and> v \<le> 1) \<and>
   (ndbi med p = Some v \<longrightarrow> - 1 \<le> v \<and> v \<le> 1) \<and>
   (SR_B5 med p = Some nir \<and> SR_B4 med p = Some red \<and> nir + red = 0 \<longrightarrow>
      ndvi med p = None) \<and>
   (SR_B6 med p = Some swir \<and> SR_B5 med p = Some nir \<and> swir + nir = 0 \<longrightarrow>
      ndbi med p = None)"
  using normalizedDifference_range [of "SR_B5 med" "SR_B4 med" p v]
    normalizedDifference_range [of "SR_B6 med" "SR_B5 med" p v]
  by (auto simp: ndvi_def ndbi_def normalizedDifference_zero_denominator)

theorem index_range_and_zero_denominator_witness:
  "ndvi (scene_bands (example_scene 1000 3000 2000 40000)) 0 = Some (1 / 2) \<and>
   - 1 \<le> (1 / 2 :: real) \<and> (1 / 2 :: real) \<le> 1 \<and>
   SR_B5 (scene_bands (example_scene 0 0 0 0)) 0 = Some 0 \<and>
   SR_B4 (scene_bands (example_scene 0 0 0 0)) 0 = Some 0 \<and>
   ndvi (scene_bands (example_scene 0 0 0 0)) 0 = None \<and>
   ndbi (scene_bands (example_scene 0 0 0 0)) 0 = None"
proof -
  have z: "SR_B5 (scene_bands (example_scene 0 0 0 0)) 0 = Some 0"
    "SR_B4 (scene_bands (example_scene 0 0 0 0)) 0 = Some 0"
    "SR_B6 (scene_bands (example_scene 0 0 0 0)) 0 = Some 0"
    by (simp_all add: example_scene_def)
  have n: "ndvi (scene_bands (example_scene 1000 3000 2000 40000)) 0 = Some (1 / 2)"
    by (simp add: ndvi_def normalizedDifference_def example_scene_def)
  from index_range_and_zero_denominator
    [of "scene_bands (example_scene 1000 3000 2000 40000)" 0 "1 / 2"] n
  have a: "- 1 \<le> (1 / 2 :: real) \<and> (1 / 2 :: real) \<le> 1" by blast
  from index_range_and_zero_denominator [of "scene_bands (example_scene 0 0 0 0)" 0 _ 0 0 0] z
  have b: "ndvi (scene_bands (example_scene 0 0 0 0)) 0 = None \<and>
           ndbi (scene_bands (example_scene 0 0 0 0)) 0 = None"
    by simp
  from n a z b show ?thesis by simp
qed

subsection \<open>C8: the aggregation limit\<close>

text \<open>
  C8.  A region mean fails with the aggregation-limit error exactly when the geometry has
  more pixels at the sampling scale than \<^verbatim>\<open>maxPixels\<close> allows; it never returns a mean of
  a part of the pixels.  In the script the urban and the rural mean fail when the boundary
  has more than \<open>10 ^ 13\<close> pixels, and the mean of a city buffer within the limit is
  computed all the same, over every composite and whatever boundary it is clipped to.
\<close>

theorem aggregation_limit:
  "(reduceRegion_mean img args = Inl TooManyPixels \<longleftrightarrow>
      maxPixels args < length (geometry args)) \<and>
   (10 ^ 13 < length javaBounds \<longrightarrow>
      urbanTemp lst urban javaBounds = Inl TooManyPixels \<and>
      ruralTemp lst rural javaBounds = Inl TooManyPixels) \<and>
   (length buffer \<le> 10 ^ 13 \<longrightarrow>
      cityLST (clip composite javaBounds) buffer =
        Inr (RegionMean (clip composite javaBounds) full_mask buffer))"
  using reduceRegion_mean_RegionMean [of "clip composite javaBounds" full_mask
      "\<lparr> geometry = buffer, scale = 100, maxPixels = 10 ^ 13 \<rparr>"]
  by (auto simp: reduceRegion_mean_def urbanTemp_def ruralTemp_def cityLST_def updateMask_full)

theorem aggregation_limit_witness:
  "maxPixels \<lparr> geometry = replicate (10 ^ 8) (0, 1), scale = 1, maxPixels = 10 ^ 6 \<rparr>
     < length (geometry \<lparr> geometry = replicate (10 ^ 8) (0, 1), scale = 1, maxPixels = 10 ^ 6 \<rparr>) \<and>
   reduceRegion_mean synthetic_LST
     \<lparr> geometry = replicate (10 ^ 8) (0, 1), scale = 1, maxPixels = 10 ^ 6 \<rparr> =
     Inl TooManyPixels \<and>
   10 ^ 13 < length (replicate (10 ^ 13 + 1) (0 :: pixel, 1 :: real)) \<and>
   urbanTemp synthetic_LST (urbanMask synthetic_NDVI synthetic_NDBI)
     (replicate (10 ^ 13 + 1) (0, 1)) = Inl TooManyPixels \<and>
   length [(0 :: pixel, 1 :: real)] \<le> 10 ^ 13 \<and>
   cityLST (clip synthetic_LST (replicate (10 ^ 13 + 1) (0, 1))) [(0, 1)] =
     Inr (RegionMean (clip synthetic_LST (replicate (10 ^ 13 + 1) (0, 1))) full_mask [(0, 1)])"
proof -
  have a: "maxPixels \<lparr> geometry = replicate (10 ^ 8) (0 :: pixel, 1 :: real), scale = 1,
      maxPixels = 10 ^ 6 \<rparr>
     < length (geometry \<lparr> geometry = replicate (10 ^ 8) (0 :: pixel, 1 :: real), scale = 1,
         maxPixels = 10 ^ 6 \<rparr>)"
    by simp
  have b: "10 ^ 13 < length (replicate (10 ^ 13 + 1) (0 :: pixel, 1 :: real))"
    by simp
  have c: "length [(0 :: pixel, 1 :: real)] \<le> 10 ^ 13"
    by simp
  from a b c
    aggregation_limit [of synthetic_LST
      "\<lparr> geometry = replicate (10 ^ 8) (0, 1), scale = 1, maxPixels = 10 ^ 6 \<rparr>"
      "replicate (10 ^ 13 + 1) (0, 1)" synthetic_LST "urbanMask synthetic_NDVI synthetic_NDBI"
      "ruralMask synthetic_NDVI synthetic_NDBI" "[(0, 1)]" synthetic_LST]
  show ?thesis by blast
qed

subsection \<open>C9: translation invariance\<close>




subsection \<open>C10: city means\<close>

text \<open>
  C10.  The LST composite of a scene set that is not empty is the mean composite clipped
  to the boundary.  The mean LST of a city over a clipped composite is the mean of the
  composite over the pixels of the city buffer that the boundary covers: the values of
  the composite outside the boundary do not change it, and a buffer without a valid
  clipped pixel gives a null mean.  The script reports one such mean for each of the five
  cities, over the buffer of radius 10000 around its point.
\<close>

theorem city_mean_over_intersection:
  "(scenes \<noteq> [] \<longrightarrow>
      lstMean scenes jb = Some (clip (band_mean (lstCollection scenes)) jb)) \<and>
   (length buffer \<le> 10 ^ 13 \<longrightarrow>
      cityLST (clip composite jb) buffer =
        Inr (RegionMean composite full_mask (intersection buffer jb))) \<and>
   ((\<forall>p. covered jb p \<longrightarrow> lst1 p = lst2 p) \<longrightarrow>
      cityLST (clip lst1 jb) buffer = cityLST (clip lst2 jb) buffer) \<and>
   (length buffer \<le> 10 ^ 13 \<and> (\<forall>x \<in> set buffer. clip composite jb (fst x) = None) \<longrightarrow>
      cityLST (clip composite jb) buffer = Inr None) \<and>
   map fst (city_report buffer_of lst) =
     [''Jakarta'', ''Surabaya'', ''Bandung'', ''Semarang'', ''Yogyakarta''] \<and>
   map snd (city_report buffer_of lst) =
     map (\<lambda>c. cityLST lst (buffer_of (coords c) 10000)) cities"
proof -
  have s: "scenes \<noteq> [] \<longrightarrow>
      lstMean scenes jb = Some (clip (band_mean (lstCollection scenes)) jb)"
    by (simp add: lstMean_nonempty)
  have a: "length buffer \<le> 10 ^ 13 \<longrightarrow>
      cityLST (clip composite jb) buffer =
        Inr (RegionMean composite full_mask (intersection buffer jb))"
    by (simp add: cityLST_clip)
  have b: "(\<forall>p. covered jb p \<longrightarrow> lst1 p = lst2 p) \<longrightarrow>
      cityLST (clip lst1 jb) buffer = cityLST (clip lst2 jb) buffer"
    using clip_cong [of jb lst1 lst2] by simp
  have c: "length buffer \<le> 10 ^ 13 \<and> (\<forall>x \<in> set buffer. clip composite jb (fst x) = None) \<longrightarrow>
      cityLST (clip composite jb) buffer = Inr None"
    by (simp add: cityLST_def reduceRegion_mean_def region_inputs_all_masked Reducer_mean_def)
  have d: "map fst (city_report buffer_of lst) =
     [''Jakarta'', ''Surabaya'', ''Bandung'', ''Semarang'', ''Yogyakarta'']"
    by (simp add: city_report_def cities_def)
  have e: "map snd (city_report buffer_of lst) =
     map (\<lambda>c. cityLST lst (buffer_of (coords c) 10000)) cities"
    by (simp add: city_report_def comp_def)
  from s a b c d e show ?thesis by (intro conjI)
qed

theorem city_mean_over_intersection_witness:
  "example_scenes \<noteq> [] \<and>
   lstMean example_scenes [(0, 1)] =
     Some (clip (band_mean (lstCollection example_scenes)) [(0, 1)]) \<and>
   length [(0 :: pixel, 1 :: real), (1, 1)] \<le> 10 ^ 13 \<and>
   cityLST (clip (band_mean (lstCollection example_scenes)) [(0, 1)]) [(0, 1), (1, 1)] =
     Inr (Some 19.40684) \<and>
   length [(1 :: pixel, 1 :: real)] \<le> 10 ^ 13 \<and>
   clip (band_mean (lstCollection example_scenes)) [(0, 1)] 1 = None \<and>
   cityLST (clip (band_mean (lstCollection example_scenes)) [(0, 1)]) [(1, 1)] = Inr None"
proof -
  let ?composite = "band_mean (lstCollection example_scenes)"
  have ne: "example_scenes \<noteq> []" by (simp add: example_scenes_def)
  have l: "length [(0 :: pixel, 1 :: real), (1, 1)] \<le> 10 ^ 13"
    "length [(1 :: pixel, 1 :: real)] \<le> 10 ^ 13"
    by simp_all
  have m: "clip ?composite [(0, 1)] 1 = None"
    by (simp add: clip_def covered_def)
  from city_mean_over_intersection [where scenes = example_scenes and jb = "[(0, 1)]"] ne
  have s: "lstMean example_scenes [(0, 1)] = Some (clip ?composite [(0, 1)])"
    by blast
  from city_mean_over_intersection
    [where buffer = "[(0, 1), (1, 1)]" and composite = ?composite and jb = "[(0, 1)]"] l
  have "cityLST (clip ?composite [(0, 1)]) [(0, 1), (1, 1)] =
      Inr (RegionMean ?composite full_mask (intersection [(0, 1), (1, 1)] [(0, 1)]))"
    by blast
  then have a: "cityLST (clip ?composite [(0, 1)]) [(0, 1), (1, 1)] = Inr (Some 19.40684)"
    by (simp only: example_RegionMean)
  have "\<forall>x \<in> set [(1 :: pixel, 1 :: real)]. clip ?composite [(0, 1)] (fst x) = None"
    using m by simp
  with city_mean_over_intersection
    [where buffer = "[(1, 1)]" and composite = ?composite and jb = "[(0, 1)]"] l
  have b: "cityLST (clip ?composite [(0, 1)]) [(1, 1)] = Inr None"
    by blast
  from ne s l m a b show ?thesis by (intro conjI)
qed

end
